theory Spec2Isabelle
  imports Main "HOL-Library.Word"
begin

section \<open>Go values shared by the model\<close>

text \<open>
  The server command of goproxy (\<^verbatim>\<open>cmd/goproxy/internal/server_cmd.go\<close>) is embedded
  function by function. A Go call either returns or panics; a returned \<^verbatim>\<open>error\<close> is a
  value, with \<^verbatim>\<open>nil\<close> as \<open>None\<close> where the interface may be nil.
\<close>

datatype 'a go_result = Panics string | Returns 'a

text \<open>
  The error values the command can see: the sentinel \<^verbatim>\<open>http.ErrServerClosed\<close>, the
  operating system's sentinels, \<^verbatim>\<open>errors.New\<close> strings, \<^verbatim>\<open>*fs.PathError\<close> (operation,
  path, cause) and any other wrapping error (message, cause).
\<close>

datatype error =
    ErrServerClosed
  | ErrNotExist
  | ErrPermission
  | errors_New string
  | PathError string string error
  | WrapError string error

text \<open>\<^verbatim>\<open>errors.Is\<close>: the target is looked for along the chain of \<^verbatim>\<open>Unwrap\<close>.\<close>

fun errors_Is :: "error \<Rightarrow> error \<Rightarrow> bool" where
  "errors_Is (PathError op p cause) target =
     (PathError op p cause = target \<or> errors_Is cause target)"
| "errors_Is (WrapError msg cause) target =
     (WrapError msg cause = target \<or> errors_Is cause target)"
| "errors_Is e target = (e = target)"

text \<open>\<^verbatim>\<open>time.Duration\<close> is an \<^verbatim>\<open>int64\<close> of nanoseconds; its comparisons are signed.\<close>

type_synonym Duration = "64 word"

definition Second :: Duration where
  "Second = 1000000000"

definition Minute :: Duration where
  "Minute = 60 * Second"

text \<open>
  A context is the background context, the command's context, the context the server
  gives an inbound request, or a child of a context with a timeout.
\<close>

datatype Context =
    Background
  | CmdContext
  | ReqContext nat
  | WithTimeout Context Duration

section \<open>Strings and paths\<close>

definition backslash :: char where
  "backslash = CHR 0x5C"

text \<open>\<^verbatim>\<open>strings.HasPrefix\<close> and \<^verbatim>\<open>strings.TrimPrefix\<close>.\<close>

definition HasPrefix :: "string \<Rightarrow> string \<Rightarrow> bool" where
  "HasPrefix s pre = (length s \<ge> length pre \<and> take (length pre) s = pre)"

definition TrimPrefix :: "string \<Rightarrow> string \<Rightarrow> string" where
  "TrimPrefix s pre = (if HasPrefix s pre then drop (length pre) s else s)"

text \<open>
  What \<^verbatim>\<open>path/filepath\<close> gives on the host: the separator, \<^verbatim>\<open>filepath.VolumeName\<close> and
  \<^verbatim>\<open>filepath.IsAbs\<close>. \<^verbatim>\<open>Open\<close> is embedded over any such platform; the two hosts of the Go
  distribution follow.
\<close>

record platform =
  Separator :: char
  VolumeName :: "string \<Rightarrow> string"
  IsAbs :: "string \<Rightarrow> bool"

text \<open>
  \<^verbatim>\<open>filepath.FromSlash\<close>: the path itself where the separator is the slash, every slash
  replaced by the separator elsewhere.
\<close>

definition FromSlash :: "platform \<Rightarrow> string \<Rightarrow> string" where
  "FromSlash p path =
     (if Separator p = CHR ''/'' then path
      else map (\<lambda>c. if c = CHR ''/'' then Separator p else c) path)"

subsection \<open>The Unix host\<close>

definition unix :: platform where
  "unix = \<lparr>Separator = CHR ''/'',
           VolumeName = (\<lambda>path. []),
           IsAbs = (\<lambda>path. HasPrefix path ''/'')\<rparr>"

subsection \<open>The Windows host\<close>

text \<open>
  The Go distribution's Windows rules (\<^verbatim>\<open>volumeNameLen\<close>, \<^verbatim>\<open>IsAbs\<close> and their helpers in
  \<^verbatim>\<open>internal/filepathlite/path_windows.go\<close>).
\<close>

definition IsPathSeparator :: "char \<Rightarrow> bool" where
  "IsPathSeparator c = (c = backslash \<or> c = CHR ''/'')"

definition toUpper :: "char \<Rightarrow> char" where
  "toUpper c =
     (if (of_char (CHR ''a'') :: nat) \<le> of_char c \<and> (of_char c :: nat) \<le> of_char (CHR ''z'')
      then char_of ((of_char c :: nat) - (of_char (CHR ''a'') - of_char (CHR ''A'')))
      else c)"

text \<open>The comparison loop of \<^verbatim>\<open>pathHasPrefixFold\<close>, over the prefix and the path.\<close>

fun foldMatch :: "string \<Rightarrow> string \<Rightarrow> bool" where
  "foldMatch [] s = True"
| "foldMatch (p # ps) [] = False"
| "foldMatch (p # ps) (c # cs) =
     (if IsPathSeparator p then (if \<not> IsPathSeparator c then False else foldMatch ps cs)
      else if toUpper p \<noteq> toUpper c then False
      else foldMatch ps cs)"

definition pathHasPrefixFold :: "string \<Rightarrow> string \<Rightarrow> bool" where
  "pathHasPrefixFold s pre =
     (if length s < length pre then False
      else if \<not> foldMatch pre s then False
      else if length s > length pre \<and> \<not> IsPathSeparator (s ! length pre) then False
      else True)"

text \<open>
  The loop of \<^verbatim>\<open>uncLen\<close>: the index of the second separator from \<open>i\<close> on, if there
  is one.
\<close>

fun uncLenLoop :: "string \<Rightarrow> nat \<Rightarrow> nat \<Rightarrow> nat option" where
  "uncLenLoop [] i count = None"
| "uncLenLoop (c # cs) i count =
     (if IsPathSeparator c
      then (if count + 1 = 2 then Some i else uncLenLoop cs (i + 1) (count + 1))
      else uncLenLoop cs (i + 1) count)"

definition uncLen :: "string \<Rightarrow> nat \<Rightarrow> nat" where
  "uncLen path prefixLen =
     (case uncLenLoop (drop prefixLen path) prefixLen 0 of
        Some i \<Rightarrow> i
      | None \<Rightarrow> length path)"

fun cutPath :: "string \<Rightarrow> string \<times> string \<times> bool" where
  "cutPath [] = ([], [], False)"
| "cutPath (c # cs) =
     (if IsPathSeparator c then ([], cs, True)
      else (case cutPath cs of (before, after, found) \<Rightarrow> (c # before, after, found)))"

definition volumeNameLen :: "string \<Rightarrow> nat" where
  "volumeNameLen path =
     (if length path \<ge> 2 \<and> path ! 1 = CHR '':'' then 2
      else if length path = 0 \<or> \<not> IsPathSeparator (path ! 0) then 0
      else if pathHasPrefixFold path [backslash, backslash, CHR ''.'', backslash,
                                       CHR ''U'', CHR ''N'', CHR ''C'']
        then uncLen path 8
      else if pathHasPrefixFold path [backslash, backslash, CHR ''.'']
           \<or> pathHasPrefixFold path [backslash, backslash, CHR ''?'']
           \<or> pathHasPrefixFold path [backslash, CHR ''?'', CHR ''?'']
        then (if length path = 3 then 3
              else (case cutPath (drop 4 path) of
                      (before, rest, ok) \<Rightarrow>
                        if \<not> ok then length path else length path - length rest - 1))
      else if length path \<ge> 2 \<and> IsPathSeparator (path ! 1) then uncLen path 2
      else 0)"

definition IsAbs_windows :: "string \<Rightarrow> bool" where
  "IsAbs_windows path =
     (let l = volumeNameLen path in
      if l = 0 then False
      else if IsPathSeparator (path ! 0) \<and> IsPathSeparator (path ! 1) then True
      else (let path' = drop l path in
            if path' = [] then False else IsPathSeparator (path' ! 0)))"

definition windows :: platform where
  "windows = \<lparr>Separator = backslash,
              VolumeName = (\<lambda>path. map (\<lambda>c. if c = CHR ''/'' then backslash else c)
                                        (take (volumeNameLen path) path)),
              IsAbs = IsAbs_windows\<rparr>"

section \<open>The local file system\<close>

text \<open>
  The file system answers an open request on a path with the bytes of the file or with
  the cause of the failure. \<^verbatim>\<open>os.Open\<close> returns a handle on the file or the cause
  wrapped in a \<^verbatim>\<open>*PathError\<close>.
\<close>

type_synonym filesystem = "string \<Rightarrow> error + string"

record File =
  file_name :: string
  file_bytes :: string

definition os_Open :: "filesystem \<Rightarrow> string \<Rightarrow> error + File" where
  "os_Open fs name =
     (case fs name of
        Inl cause \<Rightarrow> Inl (PathError ''open'' name cause)
      | Inr bytes \<Rightarrow> Inr \<lparr>file_name = name, file_bytes = bytes\<rparr>)"

text \<open>
  \<^verbatim>\<open>httpDirFS.Open\<close>. The result carries the paths on which \<^verbatim>\<open>os.Open\<close> was called, in
  order, and what the call did: a panic (the slice \<^verbatim>\<open>name[1:]\<close> of an empty string), or
  the returned pair as a sum.
\<close>

definition Open_checked :: "platform \<Rightarrow> filesystem \<Rightarrow> string \<Rightarrow> string list \<times> (error + File) go_result" where
  "Open_checked p fs name =
     (if \<not> IsAbs p name then ([], Returns (Inl (errors_New ''path is not absolute'')))
      else ([name], Returns (os_Open fs name)))"

definition Open :: "platform \<Rightarrow> filesystem \<Rightarrow> string \<Rightarrow> string list \<times> (error + File) go_result" where
  "Open p fs name0 =
     (let name = FromSlash p name0 in
      if Separator p = backslash then
        (case name of
           [] \<Rightarrow> ([], Panics ''runtime error: slice bounds out of range [1:0]'')
         | c # name' \<Rightarrow>
             (let volumeName = VolumeName p name' in
              if volumeName = [] \<or> HasPrefix volumeName [backslash, backslash]
              then ([], Returns (Inl (errors_New ''file URL missing drive letter'')))
              else Open_checked p fs name'))
      else Open_checked p fs name)"

text \<open>
  The value of \<^verbatim>\<open>name\<close> after the conversion, and on a drive-letter platform after the
  slice \<^verbatim>\<open>name[1:]\<close> of a non-empty string: the path the checks and \<^verbatim>\<open>os.Open\<close> see.
\<close>

definition resolved :: "platform \<Rightarrow> string \<Rightarrow> string" where
  "resolved p name0 =
     (if Separator p = backslash then drop 1 (FromSlash p name0) else FromSlash p name0)"

section \<open>The configuration\<close>

record serverCmdConfig =
  address :: string
  tlsCertFile :: string
  tlsKeyFile :: string
  pathPrefix :: string
  goBinName :: string
  maxDirectFetches :: int
  proxiedSUMDBs :: "string list"
  cacheDir :: string
  tempDir :: string
  insecure :: bool
  connectTimeout :: Duration
  fetchTimeout :: Duration
  shutdownTimeout :: Duration

text \<open>
  \<^verbatim>\<open>newServerCmdConfig\<close>: the defaults of the flags; \<open>osTempDir\<close> is what \<^verbatim>\<open>os.TempDir()\<close>
  returns.
\<close>

definition newServerCmdConfig :: "string \<Rightarrow> serverCmdConfig" where
  "newServerCmdConfig osTempDir =
     \<lparr>address = ''localhost:8080'',
      tlsCertFile = [],
      tlsKeyFile = [],
      pathPrefix = [],
      goBinName = ''go'',
      maxDirectFetches = 0,
      proxiedSUMDBs = [],
      cacheDir = ''caches'',
      tempDir = osTempDir,
      insecure = False,
      connectTimeout = 30 * Second,
      fetchTimeout = 10 * Minute,
      shutdownTimeout = 10 * Second\<rparr>"

section \<open>The outbound transport\<close>

datatype FileSystem = httpDirFS

datatype RoundTripper = NewFileTransport FileSystem | OtherRoundTripper string

record Dialer =
  Timeout :: Duration
  KeepAlive :: Duration

record tls_Config =
  InsecureSkipVerify :: bool

text \<open>
  The fields of \<^verbatim>\<open>http.Transport\<close> the command sets, and the unexported table of
  registered protocols.
\<close>

record Transport =
  DialContext :: Dialer
  TLSClientConfig :: "tls_Config option"
  altProto :: "string \<rightharpoonup> RoundTripper"

text \<open>
  \<^verbatim>\<open>Transport.Clone\<close> copies the exported fields; the clone starts with no registered
  protocol. \<^verbatim>\<open>Transport.RegisterProtocol\<close> panics on a scheme that is registered already.
\<close>

definition Clone :: "Transport \<Rightarrow> Transport" where
  "Clone t = \<lparr>DialContext = DialContext t,
              TLSClientConfig = TLSClientConfig t,
              altProto = Map.empty\<rparr>"

definition RegisterProtocol :: "Transport \<Rightarrow> string \<Rightarrow> RoundTripper \<Rightarrow> Transport go_result" where
  "RegisterProtocol t scheme rt =
     (case altProto t scheme of
        Some old \<Rightarrow> Panics (''protocol '' @ scheme @ '' already registered'')
      | None \<Rightarrow> Returns (t\<lparr>altProto := (altProto t)(scheme \<mapsto> rt)\<rparr>))"

text \<open>
  The variable \<^verbatim>\<open>http.DefaultTransport\<close> has the interface type \<^verbatim>\<open>http.RoundTripper\<close>: it
  holds a pointer to a \<^verbatim>\<open>Transport\<close> (its declared value), a value of another type (named
  here by its type), or nil. The assertion \<^verbatim>\<open>http.DefaultTransport.(*http.Transport)\<close> of
  line 75 has the one-result form: it panics on everything but a pointer to a
  \<^verbatim>\<open>Transport\<close>.
\<close>

datatype DefaultRoundTripper =
    TransportPtr Transport
  | OtherImpl string
  | NilInterface

definition assertTransport :: "DefaultRoundTripper \<Rightarrow> Transport go_result" where
  "assertTransport v =
     (case v of
        TransportPtr t \<Rightarrow> Returns t
      | OtherImpl ty \<Rightarrow>
          Panics (''interface conversion: http.RoundTripper is '' @ ty
                  @ '', not *http.Transport'')
      | NilInterface \<Rightarrow>
          Panics ''interface conversion: http.RoundTripper is nil, not *http.Transport'')"

text \<open>
  The calls of a run with an effect outside the values it builds, in order: the serve
  loop started in the background (it listens and accepts), then the calls of the
  foreground on the server and on the contexts, the deferred ones at the return.
\<close>

datatype event =
    ListenAndServe string
  | ListenAndServeTLS string string string
  | Shutdown Context
  | Cancel Context
  | Stop

text \<open>
  Lines 75 to 78 of \<^verbatim>\<open>runServerCmd\<close>, with the calls they make and their result;
  \<open>defaultTransport\<close> is the value of \<^verbatim>\<open>http.DefaultTransport\<close>. The assertion, the
  clone, the two assignments and the registration only build values: they make no such
  call, and none on the file system or the network.
\<close>

definition buildTransport :: "serverCmdConfig \<Rightarrow> DefaultRoundTripper \<Rightarrow> event list \<times> Transport go_result" where
  "buildTransport cfg defaultTransport =
     (case assertTransport defaultTransport of
        Panics msg \<Rightarrow> ([], Panics msg)
      | Returns t \<Rightarrow>
          (let transport = Clone t;
               transport = transport\<lparr>DialContext :=
                             \<lparr>Timeout = connectTimeout cfg, KeepAlive = 30 * Second\<rparr>\<rparr>;
               transport = transport\<lparr>TLSClientConfig :=
                             Some \<lparr>InsecureSkipVerify = insecure cfg\<rparr>\<rparr>
           in ([], RegisterProtocol transport ''file'' (NewFileTransport httpDirFS))))"

section \<open>The request handler\<close>

text \<open>
  Of a request, the model keeps the path and the escaped path of its URL and its
  context.
\<close>

record Request =
  URL_Path :: string
  URL_RawPath :: string
  req_Context :: Context

text \<open>
  What serving a request does, in order: the proxy handler is entered with a request, a
  404 is written, a timeout context is created, a cancel function is called.
\<close>

datatype hevent =
    Served Request
  | NotFound
  | TimeoutArmed Context
  | CancelCalled Context

type_synonym Handler = "Request \<Rightarrow> hevent list \<times> unit go_result"

record Goproxy =
  GoBinName :: string
  MaxDirectFetches :: int
  ProxiedSUMDBs :: "string list"
  Cacher :: string
  TempDir :: string
  Transport :: Transport

definition newGoproxy :: "serverCmdConfig \<Rightarrow> Transport \<Rightarrow> Goproxy" where
  "newGoproxy cfg transport =
     \<lparr>GoBinName = goBinName cfg,
      MaxDirectFetches = maxDirectFetches cfg,
      ProxiedSUMDBs = proxiedSUMDBs cfg,
      Cacher = cacheDir cfg,
      TempDir = tempDir cfg,
      Transport = transport\<rparr>"

text \<open>
  The proxy handler is outside this repository: \<open>serve\<close> says whether its
  \<^verbatim>\<open>ServeHTTP\<close> returns or panics on a request. The model records the request it is
  entered with.
\<close>

definition Goproxy_ServeHTTP :: "(Goproxy \<Rightarrow> Request \<Rightarrow> unit go_result) \<Rightarrow> Goproxy \<Rightarrow> Handler" where
  "Goproxy_ServeHTTP serve g = (\<lambda>req. ([Served req], serve g req))"

text \<open>
  \<^verbatim>\<open>http.StripPrefix\<close> of the Go distribution: the handler itself for the empty prefix;
  otherwise the prefix is cut from the path and the escaped path, and a request where
  the cut changes nothing is answered with 404 without calling the handler.
\<close>

definition StripPrefix :: "string \<Rightarrow> Handler \<Rightarrow> Handler" where
  "StripPrefix pre h =
     (if pre = [] then h
      else (\<lambda>r.
        let p = TrimPrefix (URL_Path r) pre;
            rp = TrimPrefix (URL_RawPath r) pre
        in if length p < length (URL_Path r)
              \<and> (URL_RawPath r = [] \<or> length rp < length (URL_RawPath r))
           then h (r\<lparr>URL_Path := p, URL_RawPath := rp\<rparr>)
           else ([NotFound], Returns ())))"

text \<open>
  The function literal of lines 93 to 99: a panic of the inner handler leaves the
  literal before \<^verbatim>\<open>cancel()\<close> is reached.
\<close>

definition deadlineHandler :: "Duration \<Rightarrow> Handler \<Rightarrow> Handler" where
  "deadlineHandler timeout h =
     (\<lambda>req.
        let ctx = WithTimeout (req_Context req) timeout in
        (case h (req\<lparr>req_Context := ctx\<rparr>) of
           (evs, Panics msg) \<Rightarrow> (TimeoutArmed ctx # evs, Panics msg)
         | (evs, Returns u) \<Rightarrow> (TimeoutArmed ctx # evs @ [CancelCalled ctx], Returns ())))"

text \<open>Lines 88 to 91: the handler under the path prefix.\<close>

definition prefixHandler :: "serverCmdConfig \<Rightarrow> Handler \<Rightarrow> Handler" where
  "prefixHandler cfg h =
     (let handler = h in
      if pathPrefix cfg \<noteq> [] then StripPrefix (pathPrefix cfg) handler else handler)"

text \<open>Lines 88 to 100: the handler the server is given.\<close>

definition wrapHandler :: "serverCmdConfig \<Rightarrow> Handler \<Rightarrow> Handler" where
  "wrapHandler cfg h =
     (let handler = prefixHandler cfg h in
      if 0 <s fetchTimeout cfg then deadlineHandler (fetchTimeout cfg) handler
      else handler)"

text \<open>The requests the proxy handler was entered with, in order.\<close>

fun servedRequests :: "hevent list \<Rightarrow> Request list" where
  "servedRequests [] = []"
| "servedRequests (Served r # evs) = r # servedRequests evs"
| "servedRequests (ev # evs) = servedRequests evs"

text \<open>The contexts whose cancel function was called, in order.\<close>

fun cancelled :: "hevent list \<Rightarrow> Context list" where
  "cancelled [] = []"
| "cancelled (CancelCalled c # evs) = c # cancelled evs"
| "cancelled (ev # evs) = cancelled evs"

text \<open>The timeout contexts that were created, in order.\<close>

fun armed :: "hevent list \<Rightarrow> Context list" where
  "armed [] = []"
| "armed (TimeoutArmed c # evs) = c # armed evs"
| "armed (ev # evs) = armed evs"

section \<open>The supervisor\<close>

record Server =
  Addr :: string
  Handler :: Handler

text \<open>
  What the environment decides in a run: the value of \<^verbatim>\<open>serverError\<close> when the
  foreground reads it after \<^verbatim>\<open>stopCtx\<close> is done (\<^verbatim>\<open>nil\<close> while the serve loop is still
  running, as after a signal), and what \<^verbatim>\<open>server.Shutdown\<close> returns for a context.
\<close>

record RunEnv =
  serverError :: "error option"
  shutdownResult :: "Context \<Rightarrow> error option"

definition serveCall :: "serverCmdConfig \<Rightarrow> Server \<Rightarrow> event" where
  "serveCall cfg server =
     (if tlsCertFile cfg \<noteq> [] \<and> tlsKeyFile cfg \<noteq> []
      then ListenAndServeTLS (Addr server) (tlsCertFile cfg) (tlsKeyFile cfg)
      else ListenAndServe (Addr server))"

text \<open>The test of line 119.\<close>

definition fatal :: "error option \<Rightarrow> bool" where
  "fatal err = (case err of None \<Rightarrow> False | Some e \<Rightarrow> \<not> errors_Is e ErrServerClosed)"

text \<open>Lines 107 to 129.\<close>

definition supervise :: "serverCmdConfig \<Rightarrow> Server \<Rightarrow> RunEnv \<Rightarrow> event list \<times> error option" where
  "supervise cfg server env =
     (if fatal (serverError env) then ([serveCall cfg server, Stop], serverError env)
      else if 0 <s shutdownTimeout cfg then
        (let shutdownCtx = WithTimeout Background (shutdownTimeout cfg) in
         ([serveCall cfg server, Shutdown shutdownCtx, Cancel shutdownCtx, Stop],
          shutdownResult env shutdownCtx))
      else ([serveCall cfg server, Shutdown Background, Stop],
            shutdownResult env Background))"

text \<open>The contexts \<^verbatim>\<open>server.Shutdown\<close> was called with, in order.\<close>

fun shutdownContexts :: "event list \<Rightarrow> Context list" where
  "shutdownContexts [] = []"
| "shutdownContexts (Shutdown c # evs) = c # shutdownContexts evs"
| "shutdownContexts (ev # evs) = shutdownContexts evs"

text \<open>
  \<^verbatim>\<open>runServerCmd\<close>: the transport, the proxy, the handler and the server are built, then
  the server is supervised.
\<close>

definition newServer :: "serverCmdConfig \<Rightarrow> Transport \<Rightarrow> (Goproxy \<Rightarrow> Request \<Rightarrow> unit go_result) \<Rightarrow> Server" where
  "newServer cfg transport serve =
     \<lparr>Addr = address cfg,
      Handler = wrapHandler cfg (Goproxy_ServeHTTP serve (newGoproxy cfg transport))\<rparr>"

definition runServerCmd :: "serverCmdConfig \<Rightarrow> DefaultRoundTripper \<Rightarrow> (Goproxy \<Rightarrow> Request \<Rightarrow> unit go_result) \<Rightarrow> RunEnv \<Rightarrow> event list \<times> error option go_result" where
  "runServerCmd cfg defaultTransport serve env =
     (case buildTransport cfg defaultTransport of
        (built, Panics msg) \<Rightarrow> (built, Panics msg)
      | (built, Returns transport) \<Rightarrow>
          (case supervise cfg (newServer cfg transport serve) env of
             (evs, err) \<Rightarrow> (built @ evs, Returns err)))"

section \<open>Concrete values\<close>

text \<open>
  The transport \<^verbatim>\<open>http.DefaultTransport\<close> points to at the start, in the Go distribution: a
  dialer with 30 seconds of timeout and keep-alive, no TLS configuration, no registered
  protocol.
\<close>

definition initialTransport :: Transport where
  "initialTransport =
     \<lparr>DialContext = \<lparr>Timeout = 30 * Second, KeepAlive = 30 * Second\<rparr>,
      TLSClientConfig = None,
      altProto = Map.empty\<rparr>"

text \<open>A file system holding one file.\<close>

definition oneFile :: "string \<Rightarrow> string \<Rightarrow> filesystem" where
  "oneFile path bytes = (\<lambda>name. if name = path then Inr bytes else Inl ErrNotExist)"

text \<open>The Windows path of a file \<^verbatim>\<open>m\<close> at the root of drive C.\<close>

definition driveC_m :: string where
  "driveC_m = [CHR ''C'', CHR '':'', backslash, CHR ''m'']"

text \<open>A proxy handler that always returns, and one that always panics.\<close>

definition serveReturns :: "Goproxy \<Rightarrow> Request \<Rightarrow> unit go_result" where
  "serveReturns g req = Returns ()"

definition servePanics :: "Goproxy \<Rightarrow> Request \<Rightarrow> unit go_result" where
  "servePanics g req = Panics ''runtime error''"


definition signalled :: RunEnv where
  "signalled = \<lparr>serverError = None, shutdownResult = (\<lambda>c. None)\<rparr>"

text \<open>The default configuration under the path prefix of the proxy.\<close>

definition proxyConfig :: serverCmdConfig where
  "proxyConfig = (newServerCmdConfig ''/tmp'')\<lparr>pathPrefix := ''/proxy''\<rparr>"

definition theProxy :: Goproxy where
  "theProxy = newGoproxy (newServerCmdConfig ''/tmp'') initialTransport"

text \<open>An inbound request for a path, with no escaped path.\<close>

definition request :: "string \<Rightarrow> Request" where
  "request path = \<lparr>URL_Path = path, URL_RawPath = [], req_Context = ReqContext 0\<rparr>"

text \<open>A configuration whose timeouts are negative.\<close>

definition negativeConfig :: serverCmdConfig where
  "negativeConfig =
     (newServerCmdConfig ''/tmp'')\<lparr>fetchTimeout := - Second, shutdownTimeout := - Second\<rparr>"

section \<open>Facts about \<^verbatim>\<open>Open\<close>\<close>

text \<open>
  On a drive-letter platform a non-empty name loses its first byte and is then checked;
  elsewhere the converted name is checked as it is. The facts about the Windows host are
  evaluations on the paths used below.
\<close>

lemma resolved_Cons:
  "Separator p = backslash \<Longrightarrow> resolved p (c # rest) = FromSlash p rest"
  by (simp add: resolved_def FromSlash_def backslash_def)

lemma Open_drive_letter:
  "Separator p = backslash \<Longrightarrow> name \<noteq> [] \<Longrightarrow>
     Open p fs name =
       (if VolumeName p (resolved p name) = []
           \<or> HasPrefix (VolumeName p (resolved p name)) [backslash, backslash]
        then ([], Returns (Inl (errors_New ''file URL missing drive letter'')))
        else Open_checked p fs (resolved p name))"
  by (cases name) (simp_all add: Open_def resolved_def FromSlash_def backslash_def Let_def)

lemma Open_other:
  "Separator p \<noteq> backslash \<Longrightarrow> Open p fs name = Open_checked p fs (resolved p name)"
  by (simp add: Open_def resolved_def Let_def)

lemma Open_empty:
  "Separator p = backslash \<Longrightarrow> Open p fs [] = ([], Panics ''runtime error: slice bounds out of range [1:0]'')"
  by (simp add: Open_def FromSlash_def)

lemma windows_Separator: "Separator windows = backslash"
  by (simp add: windows_def)

lemma unix_Separator: "Separator unix \<noteq> backslash"
  by (simp add: unix_def backslash_def)

lemma windows_driveC_m:
  "VolumeName windows driveC_m = ''C:''" "IsAbs windows driveC_m"
  by (simp_all add: windows_def driveC_m_def volumeNameLen_def IsAbs_windows_def
        IsPathSeparator_def backslash_def)

lemma windows_FromSlash_C_m: "FromSlash windows ''C:/m'' = driveC_m"
  by (simp add: FromSlash_def windows_def driveC_m_def backslash_def)

lemma windows_UNC_prefix:
  "HasPrefix (VolumeName windows (FromSlash windows ''//host/share/m'')) [backslash, backslash]"
  by code_simp

lemma windows_C_m_volume:
  "VolumeName windows (FromSlash windows ''C:/m'') \<noteq> []"
  "\<not> HasPrefix (VolumeName windows (FromSlash windows ''C:/m'')) [backslash, backslash]"
  by code_simp+

lemma windows_relative:
  "\<not> IsAbs windows (resolved windows ''/C:m'')"
  by code_simp

lemma windows_C_m_resolved:
  "resolved windows ''/C:/m'' = driveC_m"
  "IsAbs windows (resolved windows ''/C:/m'')"
  "VolumeName windows (resolved windows ''/C:/m'') \<noteq> []"
  "\<not> HasPrefix (VolumeName windows (resolved windows ''/C:/m'')) [backslash, backslash]"
  by code_simp+

lemma windows_UNC_resolved:
  "HasPrefix (VolumeName windows (resolved windows ''///host/share/m'')) [backslash, backslash]"
  by code_simp

lemma oneFile_hit: "oneFile path bytes path = Inr bytes"
  by (simp add: oneFile_def)

lemma windows_drop_C_m: "drop 1 (FromSlash windows ''/C:/m'') = driveC_m"
  by (simp add: FromSlash_def windows_def driveC_m_def backslash_def)

lemma os_Open_hit:
  "os_Open (oneFile path bytes) path = Inr \<lparr>file_name = path, file_bytes = bytes\<rparr>"
  by (simp add: os_Open_def oneFile_def)

lemma unix_empty: "FromSlash unix [] = []" "\<not> IsAbs unix []"
  by (simp_all add: FromSlash_def unix_def HasPrefix_def)

section \<open>Facts about the transport and the supervisor\<close>

text \<open>
  Over a pointer to a \<^verbatim>\<open>Transport\<close> the transport is always built, so such a run is the
  supervision of a server on the configured address; building makes no call on any
  path, and the serve call is never a shutdown call.
\<close>

lemma buildTransport_Returns:
  "buildTransport cfg (TransportPtr t) =
     ([], Returns \<lparr>DialContext = \<lparr>Timeout = connectTimeout cfg, KeepAlive = 30 * Second\<rparr>,
              TLSClientConfig = Some \<lparr>InsecureSkipVerify = insecure cfg\<rparr>,
              altProto = [''file'' \<mapsto> NewFileTransport httpDirFS]\<rparr>)"
  by (simp add: buildTransport_def assertTransport_def Clone_def RegisterProtocol_def)



lemma runServerCmd_supervise:
  "\<exists>server. Addr server = address cfg
     \<and> fst (runServerCmd cfg (TransportPtr dt) serve env) = fst (supervise cfg server env)
     \<and> snd (runServerCmd cfg (TransportPtr dt) serve env) =
         Returns (snd (supervise cfg server env))"
  unfolding runServerCmd_def buildTransport_Returns
  by (simp split: prod.split) (metis fst_conv snd_conv newServer_def Server.select_convs(1))

lemma shutdownContexts_serveCall:
  "shutdownContexts (serveCall cfg server # evs) = shutdownContexts evs"
  by (simp add: serveCall_def)


lemma supervise_bounded:
  "\<not> fatal (serverError env) \<Longrightarrow> 0 <s shutdownTimeout cfg \<Longrightarrow>
     shutdownContexts (fst (supervise cfg server env)) =
       [WithTimeout Background (shutdownTimeout cfg)]
     \<and> snd (supervise cfg server env) =
         shutdownResult env (WithTimeout Background (shutdownTimeout cfg))"
  by (simp add: supervise_def shutdownContexts_serveCall Let_def)

lemma supervise_unbounded:
  "\<not> fatal (serverError env) \<Longrightarrow> \<not> 0 <s shutdownTimeout cfg \<Longrightarrow>
     shutdownContexts (fst (supervise cfg server env)) = [Background]
     \<and> snd (supervise cfg server env) = shutdownResult env Background"
  by (simp add: supervise_def shutdownContexts_serveCall)

lemma default_shutdownTimeout: "0 <s shutdownTimeout (newServerCmdConfig tmp)"
  by (simp add: newServerCmdConfig_def Second_def word_sless_alt)

lemma signalled_not_fatal: "\<not> fatal (serverError signalled)"
  by (simp add: signalled_def fatal_def)

lemma not_positive: "(\<not> 0 <s (d::Duration)) = (d \<le>s 0)"
  by (simp add: word_sless_alt word_sle_eq not_less)

lemma negativeConfig_timeouts:
  "fetchTimeout negativeConfig \<le>s 0" "shutdownTimeout negativeConfig \<le>s 0"
  "fetchTimeout negativeConfig \<noteq> 0" "shutdownTimeout negativeConfig \<noteq> 0"
  "pathPrefix negativeConfig = []"
  by (simp_all add: negativeConfig_def newServerCmdConfig_def Second_def word_sle_eq)

section \<open>Facts about the handler\<close>

text \<open>
  With a non-empty prefix, \<^verbatim>\<open>StripPrefix\<close> calls the handler exactly when the path has the
  prefix and the escaped path is empty or has it too. The proxy under the prefix is
  entered once with the request's context, or a 404 is written.
\<close>

lemma TrimPrefix_shorter:
  "pre \<noteq> [] \<Longrightarrow> (length (TrimPrefix s pre) < length s) = HasPrefix s pre"
  by (cases pre) (auto simp: TrimPrefix_def HasPrefix_def)

lemma StripPrefix_match:
  "pre \<noteq> [] \<Longrightarrow> HasPrefix (URL_Path r) pre \<Longrightarrow>
   URL_RawPath r = [] \<or> HasPrefix (URL_RawPath r) pre \<Longrightarrow>
     StripPrefix pre h r =
       h (r\<lparr>URL_Path := drop (length pre) (URL_Path r),
            URL_RawPath := TrimPrefix (URL_RawPath r) pre\<rparr>)"
  by (auto simp: StripPrefix_def Let_def TrimPrefix_shorter) (simp_all add: TrimPrefix_def)

lemma StripPrefix_mismatch:
  "pre \<noteq> [] \<Longrightarrow>
   \<not> (HasPrefix (URL_Path r) pre \<and> (URL_RawPath r = [] \<or> HasPrefix (URL_RawPath r) pre)) \<Longrightarrow>
     StripPrefix pre h r = ([NotFound], Returns ())"
  by (auto simp: StripPrefix_def Let_def TrimPrefix_shorter)

lemma prefixHandler_proxy:
  "(\<exists>r'. req_Context r' = req_Context r
        \<and> prefixHandler cfg (Goproxy_ServeHTTP serve g) r = ([Served r'], serve g r'))
   \<or> prefixHandler cfg (Goproxy_ServeHTTP serve g) r = ([NotFound], Returns ())"
proof (cases "pathPrefix cfg = []")
  case True
  then show ?thesis by (simp add: prefixHandler_def Goproxy_ServeHTTP_def)
next
  case False
  show ?thesis
  proof (cases "HasPrefix (URL_Path r) (pathPrefix cfg)
      \<and> (URL_RawPath r = [] \<or> HasPrefix (URL_RawPath r) (pathPrefix cfg))")
    case True
    with False have "prefixHandler cfg (Goproxy_ServeHTTP serve g) r =
        Goproxy_ServeHTTP serve g
          (r\<lparr>URL_Path := drop (length (pathPrefix cfg)) (URL_Path r),
             URL_RawPath := TrimPrefix (URL_RawPath r) (pathPrefix cfg)\<rparr>)"
      by (simp add: prefixHandler_def StripPrefix_match)
    then show ?thesis by (simp add: Goproxy_ServeHTTP_def)
  next
    case False
    with \<open>pathPrefix cfg \<noteq> []\<close> show ?thesis
      by (simp add: prefixHandler_def StripPrefix_mismatch)
  qed
qed

lemma prefixHandler_match:
  assumes "pathPrefix cfg \<noteq> []" and "HasPrefix (URL_Path r) (pathPrefix cfg)"
    and "URL_RawPath r = [] \<or> HasPrefix (URL_RawPath r) (pathPrefix cfg)"
  shows "prefixHandler cfg (Goproxy_ServeHTTP serve g) r =
     ([Served (r\<lparr>URL_Path := drop (length (pathPrefix cfg)) (URL_Path r),
                  URL_RawPath := TrimPrefix (URL_RawPath r) (pathPrefix cfg)\<rparr>)],
      serve g (r\<lparr>URL_Path := drop (length (pathPrefix cfg)) (URL_Path r),
                 URL_RawPath := TrimPrefix (URL_RawPath r) (pathPrefix cfg)\<rparr>))"
  using assms by (simp add: prefixHandler_def StripPrefix_match Goproxy_ServeHTTP_def)

lemma prefixHandler_mismatch:
  assumes "pathPrefix cfg \<noteq> []"
    and "\<not> (HasPrefix (URL_Path r) (pathPrefix cfg)
            \<and> (URL_RawPath r = [] \<or> HasPrefix (URL_RawPath r) (pathPrefix cfg)))"
  shows "prefixHandler cfg h r = ([NotFound], Returns ())"
  using assms by (simp add: prefixHandler_def StripPrefix_mismatch)

lemma wrapHandler_deadline:
  "0 <s fetchTimeout cfg \<Longrightarrow>
     wrapHandler cfg h req = deadlineHandler (fetchTimeout cfg) (prefixHandler cfg h) req"
  by (simp add: wrapHandler_def)

lemma wrapHandler_plain:
  "\<not> 0 <s fetchTimeout cfg \<Longrightarrow> wrapHandler cfg h = prefixHandler cfg h"
  by (simp add: wrapHandler_def)

lemma deadlineHandler_Returns:
  "snd (h (req\<lparr>req_Context := WithTimeout (req_Context req) t\<rparr>)) = Returns u \<Longrightarrow>
     deadlineHandler t h req =
       (TimeoutArmed (WithTimeout (req_Context req) t)
          # fst (h (req\<lparr>req_Context := WithTimeout (req_Context req) t\<rparr>))
          @ [CancelCalled (WithTimeout (req_Context req) t)],
        Returns ())"
  by (cases "h (req\<lparr>req_Context := WithTimeout (req_Context req) t\<rparr>)")
    (simp add: deadlineHandler_def Let_def)

lemma deadlineHandler_Panics:
  "snd (h (req\<lparr>req_Context := WithTimeout (req_Context req) t\<rparr>)) = Panics msg \<Longrightarrow>
     deadlineHandler t h req =
       (TimeoutArmed (WithTimeout (req_Context req) t)
          # fst (h (req\<lparr>req_Context := WithTimeout (req_Context req) t\<rparr>)),
        Panics msg)"
  by (cases "h (req\<lparr>req_Context := WithTimeout (req_Context req) t\<rparr>)")
    (simp add: deadlineHandler_def Let_def)

lemma default_fetchTimeout: "0 <s fetchTimeout (newServerCmdConfig tmp)"
  by (simp add: newServerCmdConfig_def Minute_def Second_def word_sless_alt)

lemma proxyConfig_fetchTimeout: "0 <s fetchTimeout proxyConfig"
  by (simp add: proxyConfig_def default_fetchTimeout)

lemma armed_append: "armed (xs @ ys) = armed xs @ armed ys"
  by (induction xs rule: armed.induct) simp_all

lemma servedRequests_append: "servedRequests (xs @ ys) = servedRequests xs @ servedRequests ys"
  by (induction xs rule: servedRequests.induct) simp_all

lemma wrapHandler_trace:
  "\<exists>pre post. fst (wrapHandler cfg h req) =
       pre @ fst (prefixHandler cfg h
                    (req\<lparr>req_Context := if 0 <s fetchTimeout cfg
                                          then WithTimeout (req_Context req) (fetchTimeout cfg)
                                          else req_Context req\<rparr>)) @ post
     \<and> servedRequests pre = [] \<and> servedRequests post = []
     \<and> snd (wrapHandler cfg h req) =
         snd (prefixHandler cfg h
                (req\<lparr>req_Context := if 0 <s fetchTimeout cfg
                                      then WithTimeout (req_Context req) (fetchTimeout cfg)
                                      else req_Context req\<rparr>))"
proof (cases "0 <s fetchTimeout cfg")
  case True
  let ?c = "WithTimeout (req_Context req) (fetchTimeout cfg)"
  let ?down = "prefixHandler cfg h (req\<lparr>req_Context := ?c\<rparr>)"
  show ?thesis
  proof (cases "snd ?down")
    case (Panics msg)
    from deadlineHandler_Panics [where h = "prefixHandler cfg h" and req = req
        and t = "fetchTimeout cfg", OF this] True
    have "fst (wrapHandler cfg h req) = [TimeoutArmed ?c] @ fst ?down @ []"
      and "snd (wrapHandler cfg h req) = snd ?down"
      by (simp_all add: wrapHandler_deadline Panics)
    with True show ?thesis
      by (intro exI [of _ "[TimeoutArmed ?c]"] exI [of _ "[]"]) simp
  next
    case (Returns u)
    from deadlineHandler_Returns [where h = "prefixHandler cfg h" and req = req
        and t = "fetchTimeout cfg", OF this] True
    have "fst (wrapHandler cfg h req) = [TimeoutArmed ?c] @ fst ?down @ [CancelCalled ?c]"
      and "snd (wrapHandler cfg h req) = snd ?down"
      by (simp_all add: wrapHandler_deadline Returns)
    with True show ?thesis
      by (intro exI [of _ "[TimeoutArmed ?c]"] exI [of _ "[CancelCalled ?c]"]) simp
  qed
next
  case False
  then have "fst (wrapHandler cfg h req) = [] @ fst (prefixHandler cfg h req) @ []"
    by (simp add: wrapHandler_plain)
  with False show ?thesis
    by (intro exI [of _ "[]"]) (simp add: wrapHandler_plain)
qed

lemma default_prefixHandler:
  "prefixHandler (newServerCmdConfig tmp) h = h"
  by (simp add: prefixHandler_def newServerCmdConfig_def)

lemma served_contexts:
  "set (map req_Context (servedRequests (fst (prefixHandler cfg (Goproxy_ServeHTTP serve g) r))))
     \<subseteq> {req_Context r}"
  using prefixHandler_proxy [of r cfg serve g] by auto

lemma armed_prefixHandler:
  "armed (fst (prefixHandler cfg (Goproxy_ServeHTTP serve g) r)) = []"
  using prefixHandler_proxy [of r cfg serve g] by auto

lemma wrapHandler_armed:
  assumes "0 <s fetchTimeout cfg"
  shows "fst (wrapHandler cfg h req) =
       TimeoutArmed (WithTimeout (req_Context req) (fetchTimeout cfg))
         # fst (prefixHandler cfg h
                  (req\<lparr>req_Context := WithTimeout (req_Context req) (fetchTimeout cfg)\<rparr>))
         @ (case snd (prefixHandler cfg h
                  (req\<lparr>req_Context := WithTimeout (req_Context req) (fetchTimeout cfg)\<rparr>)) of
              Panics msg \<Rightarrow> []
            | Returns u \<Rightarrow> [CancelCalled (WithTimeout (req_Context req) (fetchTimeout cfg))])"
    and "snd (wrapHandler cfg h req) =
       snd (prefixHandler cfg h
              (req\<lparr>req_Context := WithTimeout (req_Context req) (fetchTimeout cfg)\<rparr>))"
proof -
  let ?down = "prefixHandler cfg h
      (req\<lparr>req_Context := WithTimeout (req_Context req) (fetchTimeout cfg)\<rparr>)"
  obtain evs out where d: "?down = (evs, out)" by (cases ?down)
  show "fst (wrapHandler cfg h req) =
       TimeoutArmed (WithTimeout (req_Context req) (fetchTimeout cfg)) # fst ?down
         @ (case snd ?down of Panics msg \<Rightarrow> []
            | Returns u \<Rightarrow> [CancelCalled (WithTimeout (req_Context req) (fetchTimeout cfg))])"
    by (cases out) (simp_all add: wrapHandler_deadline [OF assms] deadlineHandler_def Let_def d)
  show "snd (wrapHandler cfg h req) = snd ?down"
    by (cases out) (simp_all add: wrapHandler_deadline [OF assms] deadlineHandler_def Let_def d)
qed

section \<open>The local file transport\<close>

text \<open>
  Claim C9. On a drive-letter platform (the separator is the backslash) \<^verbatim>\<open>Open\<close> strips
  the first byte of the converted name without looking at it. On the empty name the slice
  \<^verbatim>\<open>name[1:]\<close> is out of bounds and the call panics. On a non-empty name the drive check,
  the absoluteness check and \<^verbatim>\<open>os.Open\<close> all see the converted name without its first
  byte, so two names that differ only in the first byte have the same result. Where the
  separator is not the backslash nothing is stripped: the checks and \<^verbatim>\<open>os.Open\<close> see the
  converted name. On every non-empty name, and on every name where the separator is not
  the backslash, \<^verbatim>\<open>Open\<close> returns, with an error or with an open file.
\<close>

theorem Open_total_unless_empty_on_drive_letter:
  "(Separator p = backslash \<longrightarrow>
      Open p fs [] = ([], Panics ''runtime error: slice bounds out of range [1:0]''))
   \<and> (Separator p = backslash \<and> name \<noteq> [] \<longrightarrow>
        Open p fs name =
          (if VolumeName p (drop 1 (FromSlash p name)) = []
              \<or> HasPrefix (VolumeName p (drop 1 (FromSlash p name))) [backslash, backslash]
           then ([], Returns (Inl (errors_New ''file URL missing drive letter'')))
           else if \<not> IsAbs p (drop 1 (FromSlash p name))
           then ([], Returns (Inl (errors_New ''path is not absolute'')))
           else ([drop 1 (FromSlash p name)],
                 Returns (os_Open fs (drop 1 (FromSlash p name))))))
   \<and> (Separator p = backslash \<longrightarrow> Open p fs (c # rest) = Open p fs (c' # rest))
   \<and> (Separator p \<noteq> backslash \<longrightarrow>
        Open p fs name =
          (if \<not> IsAbs p (FromSlash p name)
           then ([], Returns (Inl (errors_New ''path is not absolute'')))
           else ([FromSlash p name], Returns (os_Open fs (FromSlash p name)))))
   \<and> (name \<noteq> [] \<or> Separator p \<noteq> backslash \<longrightarrow>
        (\<exists>r. snd (Open p fs name) = Returns (Inl r)) \<or> (\<exists>f. snd (Open p fs name) = Returns (Inr f)))"
proof (intro conjI impI)
  assume "Separator p = backslash"
  then show "Open p fs [] = ([], Panics ''runtime error: slice bounds out of range [1:0]'')"
    by (rule Open_empty)
next
  assume "Separator p = backslash \<and> name \<noteq> []"
  then show "Open p fs name =
          (if VolumeName p (drop 1 (FromSlash p name)) = []
              \<or> HasPrefix (VolumeName p (drop 1 (FromSlash p name))) [backslash, backslash]
           then ([], Returns (Inl (errors_New ''file URL missing drive letter'')))
           else if \<not> IsAbs p (drop 1 (FromSlash p name))
           then ([], Returns (Inl (errors_New ''path is not absolute'')))
           else ([drop 1 (FromSlash p name)],
                 Returns (os_Open fs (drop 1 (FromSlash p name)))))"
    by (simp add: Open_drive_letter Open_checked_def resolved_def)
next
  assume "Separator p = backslash"
  then show "Open p fs (c # rest) = Open p fs (c' # rest)"
    by (simp add: Open_drive_letter resolved_Cons)
next
  assume "Separator p \<noteq> backslash"
  then show "Open p fs name =
          (if \<not> IsAbs p (FromSlash p name)
           then ([], Returns (Inl (errors_New ''path is not absolute'')))
           else ([FromSlash p name], Returns (os_Open fs (FromSlash p name))))"
    by (simp add: Open_other Open_checked_def resolved_def)
next
  assume h: "name \<noteq> [] \<or> Separator p \<noteq> backslash"
  have chk: "\<And>n. (\<exists>r. snd (Open_checked p fs n) = Returns (Inl r))
               \<or> (\<exists>f. snd (Open_checked p fs n) = Returns (Inr f))"
    by (simp add: Open_checked_def os_Open_def split: sum.split)
  show "(\<exists>r. snd (Open p fs name) = Returns (Inl r)) \<or> (\<exists>f. snd (Open p fs name) = Returns (Inr f))"
  proof (cases "Separator p = backslash")
    case True
    with h have "name \<noteq> []" by simp
    with True show ?thesis using chk by (simp add: Open_drive_letter)
  next
    case False
    then show ?thesis using chk by (simp add: Open_other)
  qed
qed

text \<open>
  Claim C9 on the Windows host: the empty name panics; on \<^verbatim>\<open>/C:/m\<close> the first byte is
  stripped and the file \<^verbatim>\<open>m\<close> of drive C is opened, and \<^verbatim>\<open>xC:/m\<close> has the same result. On
  the Unix host \<^verbatim>\<open>Open\<close> returns an error on the empty name.
\<close>

theorem Open_total_unless_empty_on_drive_letter_witness:
  "Separator windows = backslash
   \<and> Open windows (oneFile driveC_m ''module example'') [] =
       ([], Panics ''runtime error: slice bounds out of range [1:0]'')
   \<and> ''/C:/m'' \<noteq> []
   \<and> Open windows (oneFile driveC_m ''module example'') ''/C:/m'' =
       ([driveC_m], Returns (Inr \<lparr>file_name = driveC_m, file_bytes = ''module example''\<rparr>))
   \<and> Open windows (oneFile driveC_m ''module example'') ''/C:/m'' =
       Open windows (oneFile driveC_m ''module example'') ''xC:/m''
   \<and> Separator unix \<noteq> backslash
   \<and> Open unix (oneFile ''/m'' ''module example'') [] =
       ([], Returns (Inl (errors_New ''path is not absolute'')))"
proof -
  let ?fs = "oneFile driveC_m ''module example''"
  note w = Open_total_unless_empty_on_drive_letter [of windows ?fs "''/C:/m''" "CHR ''/''" "''C:/m''" "CHR ''x''"]
  note u = Open_total_unless_empty_on_drive_letter [of unix "oneFile ''/m'' ''module example''" "[]" "CHR ''/''" "[]" "CHR ''x''"]
  have ne: "''/C:/m'' \<noteq> []" by simp
  from w windows_Separator ne
  have "Open windows ?fs ''/C:/m'' =
          (if VolumeName windows (drop 1 (FromSlash windows ''/C:/m'')) = []
              \<or> HasPrefix (VolumeName windows (drop 1 (FromSlash windows ''/C:/m'')))
                   [backslash, backslash]
           then ([], Returns (Inl (errors_New ''file URL missing drive letter'')))
           else if \<not> IsAbs windows (drop 1 (FromSlash windows ''/C:/m''))
           then ([], Returns (Inl (errors_New ''path is not absolute'')))
           else ([drop 1 (FromSlash windows ''/C:/m'')],
                 Returns (os_Open ?fs (drop 1 (FromSlash windows ''/C:/m'')))))"
    by blast
  then have a: "Open windows ?fs ''/C:/m'' =
       ([driveC_m], Returns (Inr \<lparr>file_name = driveC_m, file_bytes = ''module example''\<rparr>))"
    unfolding windows_drop_C_m
    by (simp add: windows_driveC_m HasPrefix_def os_Open_hit backslash_def)
  from w windows_Separator
  have b: "Open windows ?fs [] = ([], Panics ''runtime error: slice bounds out of range [1:0]'')"
    and c: "Open windows ?fs ''/C:/m'' = Open windows ?fs ''xC:/m''"
    by blast+
  from u unix_Separator
  have "Open unix (oneFile ''/m'' ''module example'') [] =
          (if \<not> IsAbs unix (FromSlash unix [])
           then ([], Returns (Inl (errors_New ''path is not absolute'')))
           else ([FromSlash unix []],
                 Returns (os_Open (oneFile ''/m'' ''module example'') (FromSlash unix []))))"
    by blast
  then have d: "Open unix (oneFile ''/m'' ''module example'') [] =
       ([], Returns (Inl (errors_New ''path is not absolute'')))"
    by (simp add: unix_empty)
  from a b c d ne windows_Separator unix_Separator show ?thesis by blast
qed

text \<open>
  Claim C4 as stated fails: on the Windows host the name \<^verbatim>\<open>xC:/m\<close> does not begin with a
  path separator, and \<^verbatim>\<open>Open\<close> returns the open file \<^verbatim>\<open>m\<close> of drive C, not an error.
\<close>

theorem Open_first_byte_not_required_separator:
  "Separator windows = backslash
   \<and> \<not> IsPathSeparator (hd ''xC:/m'')
   \<and> Open windows (oneFile driveC_m ''module example'') ''xC:/m'' =
       ([driveC_m], Returns (Inr \<lparr>file_name = driveC_m, file_bytes = ''module example''\<rparr>))"
  by (simp add: windows_Separator IsPathSeparator_def backslash_def Open_drive_letter
        resolved_Cons windows_FromSlash_C_m windows_driveC_m HasPrefix_def
        Open_checked_def os_Open_def oneFile_def)

text \<open>
  Claim C4, amended. On a drive-letter platform \<^verbatim>\<open>Open\<close> removes the first byte \<open>c\<close> of a
  non-empty name whatever it is. If the rest, once converted, has an empty volume name or
  a volume name that begins with two backslashes (a network share), \<^verbatim>\<open>Open\<close> returns the
  error "file URL missing drive letter" and opens nothing; otherwise it goes on to the
  absoluteness check and \<^verbatim>\<open>os.Open\<close> on the rest.
\<close>

theorem Open_drive_letter_requirements:
  "Separator p = backslash \<Longrightarrow>
     (VolumeName p (FromSlash p rest) = []
        \<or> HasPrefix (VolumeName p (FromSlash p rest)) [backslash, backslash] \<longrightarrow>
      Open p fs (c # rest) = ([], Returns (Inl (errors_New ''file URL missing drive letter''))))
     \<and> (VolumeName p (FromSlash p rest) \<noteq> []
        \<and> \<not> HasPrefix (VolumeName p (FromSlash p rest)) [backslash, backslash] \<longrightarrow>
      Open p fs (c # rest) = Open_checked p fs (FromSlash p rest))"
  by (simp add: Open_drive_letter resolved_Cons)

text \<open>
  Claim C4, amended, on the Windows host: \<^verbatim>\<open>///host/share/m\<close> is rejected as a network
  share, and \<^verbatim>\<open>xC:/m\<close> passes the drive check.
\<close>

theorem Open_drive_letter_requirements_witness:
  "Separator windows = backslash
   \<and> HasPrefix (VolumeName windows (FromSlash windows ''//host/share/m'')) [backslash, backslash]
   \<and> Open windows (oneFile driveC_m ''module example'') ''///host/share/m'' =
       ([], Returns (Inl (errors_New ''file URL missing drive letter'')))
   \<and> VolumeName windows (FromSlash windows ''C:/m'') \<noteq> []
   \<and> \<not> HasPrefix (VolumeName windows (FromSlash windows ''C:/m'')) [backslash, backslash]
   \<and> Open windows (oneFile driveC_m ''module example'') ''xC:/m'' =
       Open_checked windows (oneFile driveC_m ''module example'') (FromSlash windows ''C:/m'')"
  using Open_drive_letter_requirements [of windows "''//host/share/m''" "oneFile driveC_m ''module example''" "CHR ''/''"]
    Open_drive_letter_requirements [of windows "''C:/m''" "oneFile driveC_m ''module example''" "CHR ''x''"]
    windows_Separator windows_UNC_prefix windows_C_m_volume
  by blast

text \<open>
  Claim C5 at the empty name. On the Windows host the empty name is not absolute, and
  \<^verbatim>\<open>Open\<close> panics in the slice \<^verbatim>\<open>name[1:]\<close> of line 139 where the claim has it return a path
  error; on the Unix host the same name is not absolute either and \<^verbatim>\<open>Open\<close> returns "path
  is not absolute", as the claim says.
\<close>

theorem Open_empty_path_panics_on_drive_letter:
  "Separator windows = backslash
   \<and> \<not> IsAbs windows []
   \<and> Open windows (oneFile driveC_m ''module example'') [] =
       ([], Panics ''runtime error: slice bounds out of range [1:0]'')
   \<and> Separator unix \<noteq> backslash
   \<and> \<not> IsAbs unix []
   \<and> Open unix (oneFile ''/m'' ''module example'') [] =
       ([], Returns (Inl (errors_New ''path is not absolute'')))"
proof -
  have "\<not> IsAbs windows []"
    by (simp add: windows_def IsAbs_windows_def volumeNameLen_def)
  moreover have "Open unix (oneFile ''/m'' ''module example'') [] =
       ([], Returns (Inl (errors_New ''path is not absolute'')))"
    by (simp add: Open_other unix_Separator resolved_def Open_checked_def unix_empty)
  ultimately show ?thesis
    by (simp add: windows_Separator unix_Separator Open_empty unix_empty)
qed

text \<open>
  Claim C5 on every name past the slice of line 139: any name where the separator is not
  the backslash, a non-empty name where it is. If the resolved path (the converted name,
  without its first byte on a drive-letter platform) is not absolute, \<^verbatim>\<open>Open\<close> returns one
  of its two path errors and \<^verbatim>\<open>os.Open\<close> is not called. On a drive-letter platform a
  volume name that begins with two backslashes is always rejected. If the resolved path
  passes the checks and the file system holds a file there, \<^verbatim>\<open>Open\<close> calls \<^verbatim>\<open>os.Open\<close> on
  that path only and returns a handle on that file with its bytes.
\<close>

theorem Open_rejects_or_opens:
  assumes "Separator p = backslash \<longrightarrow> name \<noteq> []"
  shows "(\<not> IsAbs p (resolved p name) \<longrightarrow>
            Open p fs name = ([], Returns (Inl (errors_New ''path is not absolute'')))
          \<or> Open p fs name = ([], Returns (Inl (errors_New ''file URL missing drive letter''))))
       \<and> (Separator p = backslash
            \<and> HasPrefix (VolumeName p (resolved p name)) [backslash, backslash] \<longrightarrow>
          Open p fs name = ([], Returns (Inl (errors_New ''file URL missing drive letter''))))
       \<and> (IsAbs p (resolved p name)
            \<and> (Separator p = backslash \<longrightarrow>
                 VolumeName p (resolved p name) \<noteq> []
                 \<and> \<not> HasPrefix (VolumeName p (resolved p name)) [backslash, backslash])
            \<and> fs (resolved p name) = Inr bytes \<longrightarrow>
          Open p fs name =
            ([resolved p name],
             Returns (Inr \<lparr>file_name = resolved p name, file_bytes = bytes\<rparr>)))"
proof (cases "Separator p = backslash")
  case True
  with assms have "name \<noteq> []" by simp
  with True show ?thesis
    by (simp add: Open_drive_letter Open_checked_def os_Open_def)
next
  case False
  then show ?thesis
    by (simp add: Open_other Open_checked_def os_Open_def)
qed

text \<open>
  Claim C5 on the Windows host, past the slice: \<^verbatim>\<open>/C:m\<close> is relative and rejected,
  \<^verbatim>\<open>///host/share/m\<close> is a network share and rejected, \<^verbatim>\<open>/C:/m\<close> opens the file.
\<close>

theorem Open_rejects_or_opens_witness:
  "''/C:m'' \<noteq> []
   \<and> \<not> IsAbs windows (resolved windows ''/C:m'')
   \<and> (Open windows (oneFile driveC_m ''module example'') ''/C:m'' =
         ([], Returns (Inl (errors_New ''path is not absolute'')))
       \<or> Open windows (oneFile driveC_m ''module example'') ''/C:m'' =
         ([], Returns (Inl (errors_New ''file URL missing drive letter''))))
   \<and> Separator windows = backslash
   \<and> HasPrefix (VolumeName windows (resolved windows ''///host/share/m'')) [backslash, backslash]
   \<and> Open windows (oneFile driveC_m ''module example'') ''///host/share/m'' =
         ([], Returns (Inl (errors_New ''file URL missing drive letter'')))
   \<and> IsAbs windows (resolved windows ''/C:/m'')
   \<and> oneFile driveC_m ''module example'' (resolved windows ''/C:/m'') = Inr ''module example''
   \<and> Open windows (oneFile driveC_m ''module example'') ''/C:/m'' =
         ([resolved windows ''/C:/m''],
          Returns (Inr \<lparr>file_name = resolved windows ''/C:/m'',
                          file_bytes = ''module example''\<rparr>))"
proof -
  have ne: "\<And>s. Separator windows = backslash \<longrightarrow> CHR ''/'' # s \<noteq> []" by simp
  have hit: "oneFile driveC_m ''module example'' (resolved windows ''/C:/m'') =
      Inr ''module example''"
    by (simp add: windows_C_m_resolved(1) oneFile_hit)
  from Open_rejects_or_opens [OF ne, of "''C:m''" "oneFile driveC_m ''module example''"]
    Open_rejects_or_opens [OF ne, of "''//host/share/m''" "oneFile driveC_m ''module example''"]
    Open_rejects_or_opens [OF ne, of "''C:/m''" "oneFile driveC_m ''module example''" "''module example''"]
    windows_relative windows_UNC_resolved windows_C_m_resolved(2-4) hit windows_Separator
  show ?thesis by blast
qed

section \<open>The transport builder and the supervisor\<close>






text \<open>
  Claim C7. When shutdown is initiated (the serve-loop error read by the foreground is
  nil or \<^verbatim>\<open>http.ErrServerClosed\<close>), \<^verbatim>\<open>server.Shutdown\<close> is called once: with a context
  derived from the background context with the shutdown timeout when that timeout is
  positive, and with the background context itself, which has no deadline, when it is
  zero. Its result is the result of the run.
\<close>

theorem runServerCmd_shutdown_context:
  assumes "\<not> fatal (serverError env)"
  shows "(0 <s shutdownTimeout cfg \<longrightarrow>
            shutdownContexts (fst (runServerCmd cfg (TransportPtr dt) serve env)) =
              [WithTimeout Background (shutdownTimeout cfg)]
            \<and> snd (runServerCmd cfg (TransportPtr dt) serve env) =
                Returns (shutdownResult env (WithTimeout Background (shutdownTimeout cfg))))
       \<and> (shutdownTimeout cfg = 0 \<longrightarrow>
            shutdownContexts (fst (runServerCmd cfg (TransportPtr dt) serve env)) = [Background]
            \<and> snd (runServerCmd cfg (TransportPtr dt) serve env) =
                Returns (shutdownResult env Background))"
proof -
  obtain server where run:
    "fst (runServerCmd cfg (TransportPtr dt) serve env) = fst (supervise cfg server env)"
    "snd (runServerCmd cfg (TransportPtr dt) serve env) = Returns (snd (supervise cfg server env))"
    using runServerCmd_supervise by blast
  show ?thesis
  proof (intro conjI impI)
    assume pos: "0 <s shutdownTimeout cfg"
    from supervise_bounded [OF assms pos, of server] run
    show "shutdownContexts (fst (runServerCmd cfg (TransportPtr dt) serve env)) =
            [WithTimeout Background (shutdownTimeout cfg)]"
      and "snd (runServerCmd cfg (TransportPtr dt) serve env) =
            Returns (shutdownResult env (WithTimeout Background (shutdownTimeout cfg)))"
      by simp_all
  next
    assume "shutdownTimeout cfg = 0"
    then have z: "\<not> 0 <s shutdownTimeout cfg" by simp
    from supervise_unbounded [OF assms z, of server] run
    show "shutdownContexts (fst (runServerCmd cfg (TransportPtr dt) serve env)) = [Background]"
      and "snd (runServerCmd cfg (TransportPtr dt) serve env) =
            Returns (shutdownResult env Background)"
      by simp_all
  qed
qed

text \<open>
  Claim C7 on a run stopped by a signal, with the default shutdown timeout of 10 seconds
  and with a shutdown timeout of zero.
\<close>

theorem runServerCmd_shutdown_context_witness:
  "\<not> fatal (serverError signalled)
   \<and> 0 <s shutdownTimeout (newServerCmdConfig ''/tmp'')
   \<and> shutdownContexts
        (fst (runServerCmd (newServerCmdConfig ''/tmp'') (TransportPtr initialTransport)
                serveReturns signalled)) =
        [WithTimeout Background (shutdownTimeout (newServerCmdConfig ''/tmp''))]
   \<and> shutdownTimeout ((newServerCmdConfig ''/tmp'')\<lparr>shutdownTimeout := 0\<rparr>) = 0
   \<and> shutdownContexts
        (fst (runServerCmd ((newServerCmdConfig ''/tmp'')\<lparr>shutdownTimeout := 0\<rparr>)
                (TransportPtr initialTransport) serveReturns signalled)) = [Background]"
  using runServerCmd_shutdown_context [OF signalled_not_fatal, of "newServerCmdConfig ''/tmp''" initialTransport serveReturns]
    runServerCmd_shutdown_context [OF signalled_not_fatal, of "(newServerCmdConfig ''/tmp'')\<lparr>shutdownTimeout := 0\<rparr>"
          initialTransport serveReturns]
    signalled_not_fatal default_shutdownTimeout
  by simp

section \<open>The path prefix and the request deadline\<close>

text \<open>
  Claim C3 as stated fails: with the prefix \<^verbatim>\<open>/proxy\<close>, a request for \<^verbatim>\<open>/mod/info\<close> is not
  passed on; a 404 is written and the proxy handler is not entered.
\<close>

theorem prefix_mismatch_not_forwarded:
  "pathPrefix proxyConfig = ''/proxy''
   \<and> \<not> HasPrefix ''/mod/info'' ''/proxy''
   \<and> wrapHandler proxyConfig (Goproxy_ServeHTTP serveReturns theProxy) (request ''/mod/info'') =
       ([TimeoutArmed (WithTimeout (ReqContext 0) (10 * Minute)),
         NotFound,
         CancelCalled (WithTimeout (ReqContext 0) (10 * Minute))],
        Returns ())"
  by (simp add: proxyConfig_fetchTimeout wrapHandler_deadline)
    (simp add: deadlineHandler_def prefixHandler_def StripPrefix_def TrimPrefix_def HasPrefix_def
      request_def proxyConfig_def newServerCmdConfig_def Let_def)

text \<open>
  Claim C3, amended. With a non-empty path prefix: when the path of the request begins
  with the prefix, and its escaped path is empty or begins with the prefix too, the proxy
  handler is entered once and sees the path with the prefix removed; for every other
  request, so for every request whose path does not begin with the prefix, the proxy
  handler is not entered and a 404 is written.
\<close>

theorem prefix_stripped_or_not_found:
  assumes "pathPrefix cfg \<noteq> []"
  shows "(HasPrefix (URL_Path req) (pathPrefix cfg)
            \<and> (URL_RawPath req = [] \<or> HasPrefix (URL_RawPath req) (pathPrefix cfg)) \<longrightarrow>
          map URL_Path (servedRequests (fst (wrapHandler cfg (Goproxy_ServeHTTP serve g) req))) =
            [drop (length (pathPrefix cfg)) (URL_Path req)])
       \<and> (\<not> (HasPrefix (URL_Path req) (pathPrefix cfg)
               \<and> (URL_RawPath req = [] \<or> HasPrefix (URL_RawPath req) (pathPrefix cfg))) \<longrightarrow>
          servedRequests (fst (wrapHandler cfg (Goproxy_ServeHTTP serve g) req)) = []
          \<and> NotFound \<in> set (fst (wrapHandler cfg (Goproxy_ServeHTTP serve g) req))
          \<and> snd (wrapHandler cfg (Goproxy_ServeHTTP serve g) req) = Returns ())"
proof -
  let ?r = "req\<lparr>req_Context := if 0 <s fetchTimeout cfg
                                  then WithTimeout (req_Context req) (fetchTimeout cfg)
                                  else req_Context req\<rparr>"
  obtain pre post where tr:
    "fst (wrapHandler cfg (Goproxy_ServeHTTP serve g) req) =
       pre @ fst (prefixHandler cfg (Goproxy_ServeHTTP serve g) ?r) @ post"
    "servedRequests pre = []" "servedRequests post = []"
    "snd (wrapHandler cfg (Goproxy_ServeHTTP serve g) req) =
       snd (prefixHandler cfg (Goproxy_ServeHTTP serve g) ?r)"
    using wrapHandler_trace [of cfg "Goproxy_ServeHTTP serve g" req] by blast
  show ?thesis
  proof (intro conjI impI)
    assume m: "HasPrefix (URL_Path req) (pathPrefix cfg)
            \<and> (URL_RawPath req = [] \<or> HasPrefix (URL_RawPath req) (pathPrefix cfg))"
    then have "HasPrefix (URL_Path ?r) (pathPrefix cfg)"
      and "URL_RawPath ?r = [] \<or> HasPrefix (URL_RawPath ?r) (pathPrefix cfg)"
      by simp_all
    from prefixHandler_match [OF assms this, of serve g]
    show "map URL_Path (servedRequests (fst (wrapHandler cfg (Goproxy_ServeHTTP serve g) req))) =
            [drop (length (pathPrefix cfg)) (URL_Path req)]"
      by (simp add: tr servedRequests_append)
  next
    assume "\<not> (HasPrefix (URL_Path req) (pathPrefix cfg)
            \<and> (URL_RawPath req = [] \<or> HasPrefix (URL_RawPath req) (pathPrefix cfg)))"
    then have "\<not> (HasPrefix (URL_Path ?r) (pathPrefix cfg)
            \<and> (URL_RawPath ?r = [] \<or> HasPrefix (URL_RawPath ?r) (pathPrefix cfg)))"
      by simp
    note nf = prefixHandler_mismatch [OF assms this, of "Goproxy_ServeHTTP serve g"]
    show "servedRequests (fst (wrapHandler cfg (Goproxy_ServeHTTP serve g) req)) = []"
      by (simp add: tr nf servedRequests_append)
    show "NotFound \<in> set (fst (wrapHandler cfg (Goproxy_ServeHTTP serve g) req))"
      by (simp add: tr(1) nf)
    show "snd (wrapHandler cfg (Goproxy_ServeHTTP serve g) req) = Returns ()"
      by (simp add: tr(4) nf)
  qed
qed

text \<open>
  Claim C3, amended, with the prefix \<^verbatim>\<open>/proxy\<close>: the request for \<^verbatim>\<open>/proxy/mod/info\<close> is seen as
  \<^verbatim>\<open>/mod/info\<close>, the request for \<^verbatim>\<open>/mod/info\<close> gets a 404.
\<close>

theorem prefix_stripped_or_not_found_witness:
  "pathPrefix proxyConfig \<noteq> []
   \<and> HasPrefix (URL_Path (request ''/proxy/mod/info'')) (pathPrefix proxyConfig)
   \<and> URL_RawPath (request ''/proxy/mod/info'') = []
   \<and> map URL_Path (servedRequests (fst (wrapHandler proxyConfig
         (Goproxy_ServeHTTP serveReturns theProxy) (request ''/proxy/mod/info'')))) = [''/mod/info'']
   \<and> \<not> HasPrefix (URL_Path (request ''/mod/info'')) (pathPrefix proxyConfig)
   \<and> servedRequests (fst (wrapHandler proxyConfig
         (Goproxy_ServeHTTP serveReturns theProxy) (request ''/mod/info''))) = []
   \<and> NotFound \<in> set (fst (wrapHandler proxyConfig
         (Goproxy_ServeHTTP serveReturns theProxy) (request ''/mod/info'')))"
proof -
  have p: "pathPrefix proxyConfig \<noteq> []"
    by (simp add: proxyConfig_def newServerCmdConfig_def)
  have a: "HasPrefix (URL_Path (request ''/proxy/mod/info'')) (pathPrefix proxyConfig)"
    and b: "URL_RawPath (request ''/proxy/mod/info'') = []"
    and c: "\<not> HasPrefix (URL_Path (request ''/mod/info'')) (pathPrefix proxyConfig)"
    and d: "drop (length (pathPrefix proxyConfig)) (URL_Path (request ''/proxy/mod/info'')) =
              ''/mod/info''"
    by (simp_all add: proxyConfig_def newServerCmdConfig_def request_def HasPrefix_def)
  from prefix_stripped_or_not_found [OF p, of "request ''/proxy/mod/info''" serveReturns theProxy]
    prefix_stripped_or_not_found [OF p, of "request ''/mod/info''" serveReturns theProxy] p a b c d
  show ?thesis by simp
qed

text \<open>
  Claim C6. With a positive fetch timeout, serving a request creates one context, the
  child of the request's context with that timeout; every request the proxy handler is
  entered with carries that context (with no path prefix it is the inbound request with
  that context), and the outcome is that of the handler under the prefix on the request
  with that context. With a fetch timeout of zero the handler is the handler under the
  prefix itself and no timeout context is created; with no path prefix the proxy handler
  is entered with the inbound request as it is.
\<close>

theorem fetch_timeout_context:
  "(0 <s fetchTimeout cfg \<longrightarrow>
      armed (fst (wrapHandler cfg (Goproxy_ServeHTTP serve g) req)) =
        [WithTimeout (req_Context req) (fetchTimeout cfg)]
      \<and> set (map req_Context
               (servedRequests (fst (wrapHandler cfg (Goproxy_ServeHTTP serve g) req))))
          \<subseteq> {WithTimeout (req_Context req) (fetchTimeout cfg)}
      \<and> (pathPrefix cfg = [] \<longrightarrow>
           servedRequests (fst (wrapHandler cfg (Goproxy_ServeHTTP serve g) req)) =
             [req\<lparr>req_Context := WithTimeout (req_Context req) (fetchTimeout cfg)\<rparr>])
      \<and> snd (wrapHandler cfg h req) =
          snd (prefixHandler cfg h
                 (req\<lparr>req_Context := WithTimeout (req_Context req) (fetchTimeout cfg)\<rparr>)))
   \<and> (fetchTimeout cfg = 0 \<longrightarrow>
        wrapHandler cfg h = prefixHandler cfg h
        \<and> armed (fst (wrapHandler cfg (Goproxy_ServeHTTP serve g) req)) = []
        \<and> (pathPrefix cfg = [] \<longrightarrow>
             wrapHandler cfg (Goproxy_ServeHTTP serve g) req = ([Served req], serve g req)))"
proof (intro conjI impI)
  assume pos: "0 <s fetchTimeout cfg"
  let ?c = "WithTimeout (req_Context req) (fetchTimeout cfg)"
  let ?down = "prefixHandler cfg (Goproxy_ServeHTTP serve g) (req\<lparr>req_Context := ?c\<rparr>)"
  note tr = wrapHandler_armed(1) [OF pos, of "Goproxy_ServeHTTP serve g" req]
  show "armed (fst (wrapHandler cfg (Goproxy_ServeHTTP serve g) req)) = [?c]"
    by (simp add: tr armed_append armed_prefixHandler split: go_result.split)
  show "set (map req_Context
               (servedRequests (fst (wrapHandler cfg (Goproxy_ServeHTTP serve g) req))))
          \<subseteq> {?c}"
    using served_contexts [of cfg serve g "req\<lparr>req_Context := ?c\<rparr>"]
    by (simp add: tr servedRequests_append split: go_result.split)
  show "snd (wrapHandler cfg h req) = snd (prefixHandler cfg h (req\<lparr>req_Context := ?c\<rparr>))"
    by (rule wrapHandler_armed(2) [OF pos])
  assume "pathPrefix cfg = []"
  then have "?down = ([Served (req\<lparr>req_Context := ?c\<rparr>)], serve g (req\<lparr>req_Context := ?c\<rparr>))"
    by (simp add: prefixHandler_def Goproxy_ServeHTTP_def)
  then show "servedRequests (fst (wrapHandler cfg (Goproxy_ServeHTTP serve g) req)) =
             [req\<lparr>req_Context := ?c\<rparr>]"
    by (simp add: tr servedRequests_append split: go_result.split)
next
  assume z: "fetchTimeout cfg = 0"
  then have np: "\<not> 0 <s fetchTimeout cfg" by simp
  show "wrapHandler cfg h = prefixHandler cfg h"
    by (rule wrapHandler_plain [OF np])
  show "armed (fst (wrapHandler cfg (Goproxy_ServeHTTP serve g) req)) = []"
    by (simp add: wrapHandler_plain [OF np] armed_prefixHandler)
  assume "pathPrefix cfg = []"
  then show "wrapHandler cfg (Goproxy_ServeHTTP serve g) req = ([Served req], serve g req)"
    by (simp add: wrapHandler_plain [OF np] prefixHandler_def Goproxy_ServeHTTP_def)
qed

text \<open>
  Claim C6 on the default configuration (fetch timeout of 10 minutes) and on the default
  configuration with a fetch timeout of zero.
\<close>

theorem fetch_timeout_context_witness:
  "0 <s fetchTimeout (newServerCmdConfig ''/tmp'')
   \<and> pathPrefix (newServerCmdConfig ''/tmp'') = []
   \<and> armed (fst (wrapHandler (newServerCmdConfig ''/tmp'')
        (Goproxy_ServeHTTP serveReturns theProxy) (request ''/mod/info''))) =
        [WithTimeout (ReqContext 0) (10 * Minute)]
   \<and> servedRequests (fst (wrapHandler (newServerCmdConfig ''/tmp'')
        (Goproxy_ServeHTTP serveReturns theProxy) (request ''/mod/info''))) =
        [\<lparr>URL_Path = ''/mod/info'', URL_RawPath = [],
          req_Context = WithTimeout (ReqContext 0) (10 * Minute)\<rparr>]
   \<and> fetchTimeout ((newServerCmdConfig ''/tmp'')\<lparr>fetchTimeout := 0\<rparr>) = 0
   \<and> pathPrefix ((newServerCmdConfig ''/tmp'')\<lparr>fetchTimeout := 0\<rparr>) = []
   \<and> wrapHandler ((newServerCmdConfig ''/tmp'')\<lparr>fetchTimeout := 0\<rparr>)
        (Goproxy_ServeHTTP serveReturns theProxy) (request ''/mod/info'') =
        ([Served (request ''/mod/info'')], Returns ())"
proof -
  let ?cfg = "newServerCmdConfig ''/tmp''"
  let ?req = "request ''/mod/info''"
  have a: "pathPrefix ?cfg = []"
    and b: "fetchTimeout ?cfg = 10 * Minute"
    and c: "?req\<lparr>req_Context := WithTimeout (ReqContext 0) (10 * Minute)\<rparr> =
        \<lparr>URL_Path = ''/mod/info'', URL_RawPath = [],
          req_Context = WithTimeout (ReqContext 0) (10 * Minute)\<rparr>"
    and d: "req_Context ?req = ReqContext 0"
    and e: "pathPrefix (?cfg\<lparr>fetchTimeout := 0\<rparr>) = []"
    and f: "fetchTimeout (?cfg\<lparr>fetchTimeout := 0\<rparr>) = 0"
    by (simp_all add: newServerCmdConfig_def request_def)
  have pos: "0 <s fetchTimeout ?cfg" by (rule default_fetchTimeout)
  from fetch_timeout_context [where cfg = ?cfg and serve = serveReturns and g = theProxy and req = ?req
      and h = "Goproxy_ServeHTTP serveReturns theProxy"] pos a
  have p1: "armed (fst (wrapHandler ?cfg (Goproxy_ServeHTTP serveReturns theProxy) ?req)) =
        [WithTimeout (req_Context ?req) (fetchTimeout ?cfg)]"
    and p2: "servedRequests (fst (wrapHandler ?cfg (Goproxy_ServeHTTP serveReturns theProxy) ?req)) =
        [?req\<lparr>req_Context := WithTimeout (req_Context ?req) (fetchTimeout ?cfg)\<rparr>]"
    by blast+
  from fetch_timeout_context [where cfg = "?cfg\<lparr>fetchTimeout := 0\<rparr>" and serve = serveReturns and g = theProxy
      and req = ?req and h = "Goproxy_ServeHTTP serveReturns theProxy"] e f
  have p3: "wrapHandler (?cfg\<lparr>fetchTimeout := 0\<rparr>) (Goproxy_ServeHTTP serveReturns theProxy) ?req =
        ([Served ?req], serveReturns theProxy ?req)"
    by blast
  from p1 p2 have "armed (fst (wrapHandler ?cfg (Goproxy_ServeHTTP serveReturns theProxy) ?req)) =
        [WithTimeout (ReqContext 0) (10 * Minute)]"
    and "servedRequests (fst (wrapHandler ?cfg (Goproxy_ServeHTTP serveReturns theProxy) ?req)) =
        [\<lparr>URL_Path = ''/mod/info'', URL_RawPath = [],
          req_Context = WithTimeout (ReqContext 0) (10 * Minute)\<rparr>]"
    by (simp_all only: b c d)
  moreover from p3 have "wrapHandler (?cfg\<lparr>fetchTimeout := 0\<rparr>)
      (Goproxy_ServeHTTP serveReturns theProxy) ?req = ([Served ?req], Returns ())"
    by (simp only: serveReturns_def)
  ultimately show ?thesis using pos a e f by blast
qed

text \<open>
  Claim C2 as stated fails: with the default fetch timeout, when the proxy handler
  panics the panic leaves the middleware and the cancel function is not called.
\<close>

theorem deadline_cancel_skipped_on_panic:
  "0 <s fetchTimeout (newServerCmdConfig ''/tmp'')
   \<and> wrapHandler (newServerCmdConfig ''/tmp'') (Goproxy_ServeHTTP servePanics theProxy)
       (request ''/mod/info'') =
       ([TimeoutArmed (WithTimeout (ReqContext 0) (10 * Minute)),
         Served \<lparr>URL_Path = ''/mod/info'', URL_RawPath = [],
                 req_Context = WithTimeout (ReqContext 0) (10 * Minute)\<rparr>],
        Panics ''runtime error'')"
  by (simp add: default_fetchTimeout wrapHandler_deadline)
    (simp add: deadlineHandler_def prefixHandler_def Goproxy_ServeHTTP_def servePanics_def
      request_def newServerCmdConfig_def Let_def)

text \<open>
  Claim C2, amended. With a positive fetch timeout: when the handler under the prefix
  returns, the middleware returns and the cancel function of the derived context is
  called, once, as the last step; when it panics, the same panic leaves the middleware
  and the middleware does not call the cancel function.
\<close>

theorem deadline_cancel_on_return:
  assumes "0 <s fetchTimeout cfg"
  shows "(snd (prefixHandler cfg (Goproxy_ServeHTTP serve g)
               (req\<lparr>req_Context := WithTimeout (req_Context req) (fetchTimeout cfg)\<rparr>)) = Returns () \<longrightarrow>
            snd (wrapHandler cfg (Goproxy_ServeHTTP serve g) req) = Returns ()
            \<and> cancelled (fst (wrapHandler cfg (Goproxy_ServeHTTP serve g) req)) =
                [WithTimeout (req_Context req) (fetchTimeout cfg)]
            \<and> last (fst (wrapHandler cfg (Goproxy_ServeHTTP serve g) req)) =
                CancelCalled (WithTimeout (req_Context req) (fetchTimeout cfg)))
       \<and> (snd (prefixHandler cfg (Goproxy_ServeHTTP serve g)
               (req\<lparr>req_Context := WithTimeout (req_Context req) (fetchTimeout cfg)\<rparr>)) = Panics msg \<longrightarrow>
            snd (wrapHandler cfg (Goproxy_ServeHTTP serve g) req) = Panics msg
            \<and> cancelled (fst (wrapHandler cfg (Goproxy_ServeHTTP serve g) req)) = [])"
proof -
  let ?r = "req\<lparr>req_Context := WithTimeout (req_Context req) (fetchTimeout cfg)\<rparr>"
  let ?down = "prefixHandler cfg (Goproxy_ServeHTTP serve g) ?r"
  have quiet: "cancelled (fst ?down) = []"
    using prefixHandler_proxy [of ?r cfg serve g] by auto
  show ?thesis
  proof (intro conjI impI)
    assume ret: "snd ?down = Returns ()"
    note eq = deadlineHandler_Returns [where h = "prefixHandler cfg (Goproxy_ServeHTTP serve g)"
        and req = req and t = "fetchTimeout cfg", OF ret] wrapHandler_deadline [OF assms]
    show "snd (wrapHandler cfg (Goproxy_ServeHTTP serve g) req) = Returns ()"
      by (simp add: eq)
    have app: "\<And>xs c. cancelled (xs @ [CancelCalled c]) = cancelled xs @ [c]"
    proof -
      fix xs c show "cancelled (xs @ [CancelCalled c]) = cancelled xs @ [c]"
        by (induction xs rule: cancelled.induct) simp_all
    qed
    show "cancelled (fst (wrapHandler cfg (Goproxy_ServeHTTP serve g) req)) =
            [WithTimeout (req_Context req) (fetchTimeout cfg)]"
      by (simp add: eq app quiet)
    show "last (fst (wrapHandler cfg (Goproxy_ServeHTTP serve g) req)) =
            CancelCalled (WithTimeout (req_Context req) (fetchTimeout cfg))"
      by (simp add: eq)
  next
    assume pan: "snd ?down = Panics msg"
    note eq = deadlineHandler_Panics [where h = "prefixHandler cfg (Goproxy_ServeHTTP serve g)"
        and req = req and t = "fetchTimeout cfg", OF pan] wrapHandler_deadline [OF assms]
    show "snd (wrapHandler cfg (Goproxy_ServeHTTP serve g) req) = Panics msg"
      by (simp add: eq)
    show "cancelled (fst (wrapHandler cfg (Goproxy_ServeHTTP serve g) req)) = []"
      by (simp add: eq quiet)
  qed
qed

text \<open>
  Claim C2, amended, on the default configuration, with a proxy handler that returns and
  with one that panics.
\<close>

theorem deadline_cancel_on_return_witness:
  "0 <s fetchTimeout (newServerCmdConfig ''/tmp'')
   \<and> snd (prefixHandler (newServerCmdConfig ''/tmp'') (Goproxy_ServeHTTP serveReturns theProxy)
        ((request ''/mod/info'')\<lparr>req_Context :=
           WithTimeout (req_Context (request ''/mod/info''))
             (fetchTimeout (newServerCmdConfig ''/tmp''))\<rparr>)) = Returns ()
   \<and> cancelled (fst (wrapHandler (newServerCmdConfig ''/tmp'')
        (Goproxy_ServeHTTP serveReturns theProxy) (request ''/mod/info''))) =
        [WithTimeout (req_Context (request ''/mod/info''))
           (fetchTimeout (newServerCmdConfig ''/tmp''))]
   \<and> snd (prefixHandler (newServerCmdConfig ''/tmp'') (Goproxy_ServeHTTP servePanics theProxy)
        ((request ''/mod/info'')\<lparr>req_Context :=
           WithTimeout (req_Context (request ''/mod/info''))
             (fetchTimeout (newServerCmdConfig ''/tmp''))\<rparr>)) = Panics ''runtime error''
   \<and> cancelled (fst (wrapHandler (newServerCmdConfig ''/tmp'')
        (Goproxy_ServeHTTP servePanics theProxy) (request ''/mod/info''))) = []"
proof -
  have r: "snd (prefixHandler (newServerCmdConfig ''/tmp'') (Goproxy_ServeHTTP serveReturns theProxy)
        ((request ''/mod/info'')\<lparr>req_Context :=
           WithTimeout (req_Context (request ''/mod/info''))
             (fetchTimeout (newServerCmdConfig ''/tmp''))\<rparr>)) = Returns ()"
    by (simp add: default_prefixHandler Goproxy_ServeHTTP_def serveReturns_def)
  have p: "snd (prefixHandler (newServerCmdConfig ''/tmp'') (Goproxy_ServeHTTP servePanics theProxy)
        ((request ''/mod/info'')\<lparr>req_Context :=
           WithTimeout (req_Context (request ''/mod/info''))
             (fetchTimeout (newServerCmdConfig ''/tmp''))\<rparr>)) = Panics ''runtime error''"
    by (simp add: default_prefixHandler Goproxy_ServeHTTP_def servePanics_def)
  from deadline_cancel_on_return [OF default_fetchTimeout, of "''/tmp''" serveReturns theProxy "request ''/mod/info''"]
    deadline_cancel_on_return [OF default_fetchTimeout, of "''/tmp''" servePanics theProxy "request ''/mod/info''"
          "''runtime error''"]
    r p default_fetchTimeout [of "''/tmp''"]
  show ?thesis by blast
qed

text \<open>
  Claim C10. A fetch timeout that is zero or negative installs no deadline wrapper: the
  handler is the handler under the prefix (the proxy handler itself when no prefix is
  configured), and no timeout context is created. When shutdown is initiated with a
  shutdown timeout that is zero or negative, \<^verbatim>\<open>server.Shutdown\<close> is called with the
  background context, which has no deadline.
\<close>

theorem nonpositive_timeouts_unlimited:
  "(fetchTimeout cfg \<le>s 0 \<longrightarrow>
      wrapHandler cfg h = prefixHandler cfg h
      \<and> (pathPrefix cfg = [] \<longrightarrow> wrapHandler cfg h = h)
      \<and> armed (fst (wrapHandler cfg (Goproxy_ServeHTTP serve g) req)) = [])
   \<and> (shutdownTimeout cfg \<le>s 0 \<and> \<not> fatal (serverError env) \<longrightarrow>
        shutdownContexts (fst (runServerCmd cfg (TransportPtr dt) serve env)) = [Background]
        \<and> snd (runServerCmd cfg (TransportPtr dt) serve env) = Returns (shutdownResult env Background))"
proof (intro conjI impI)
  assume "fetchTimeout cfg \<le>s 0"
  then have np: "\<not> 0 <s fetchTimeout cfg" by (simp add: not_positive)
  show "wrapHandler cfg h = prefixHandler cfg h"
    by (rule wrapHandler_plain [OF np])
  show "armed (fst (wrapHandler cfg (Goproxy_ServeHTTP serve g) req)) = []"
    by (simp add: wrapHandler_plain [OF np] armed_prefixHandler)
  assume "pathPrefix cfg = []"
  then show "wrapHandler cfg h = h"
    by (simp add: wrapHandler_plain [OF np] prefixHandler_def)
next
  assume h: "shutdownTimeout cfg \<le>s 0 \<and> \<not> fatal (serverError env)"
  then have np: "\<not> 0 <s shutdownTimeout cfg" and nf: "\<not> fatal (serverError env)"
    by (simp_all add: not_positive)
  obtain server where run:
    "fst (runServerCmd cfg (TransportPtr dt) serve env) = fst (supervise cfg server env)"
    "snd (runServerCmd cfg (TransportPtr dt) serve env) = Returns (snd (supervise cfg server env))"
    using runServerCmd_supervise by blast
  from supervise_unbounded [OF nf np, of server] run
  show "shutdownContexts (fst (runServerCmd cfg (TransportPtr dt) serve env)) = [Background]"
    and "snd (runServerCmd cfg (TransportPtr dt) serve env) = Returns (shutdownResult env Background)"
    by simp_all
qed

text \<open>
  Claim C10 on a configuration whose fetch and shutdown timeouts are minus one second.
\<close>

theorem nonpositive_timeouts_unlimited_witness:
  "fetchTimeout negativeConfig \<le>s 0
   \<and> fetchTimeout negativeConfig \<noteq> 0
   \<and> pathPrefix negativeConfig = []
   \<and> wrapHandler negativeConfig (Goproxy_ServeHTTP serveReturns theProxy) =
       Goproxy_ServeHTTP serveReturns theProxy
   \<and> armed (fst (wrapHandler negativeConfig (Goproxy_ServeHTTP serveReturns theProxy)
        (request ''/mod/info''))) = []
   \<and> shutdownTimeout negativeConfig \<le>s 0
   \<and> shutdownTimeout negativeConfig \<noteq> 0
   \<and> \<not> fatal (serverError signalled)
   \<and> shutdownContexts (fst (runServerCmd negativeConfig (TransportPtr initialTransport) serveReturns signalled)) =
       [Background]"
  using nonpositive_timeouts_unlimited [of negativeConfig "Goproxy_ServeHTTP serveReturns theProxy" serveReturns theProxy
      "request ''/mod/info''" signalled initialTransport]
    negativeConfig_timeouts signalled_not_fatal
  by blast

end
